theory Spec2Isabelle
  imports Main "HOL-Library.AList"
begin

section \<open>Python values, dictionaries and errors\<close>

text \<open>
  The integration passes \<^verbatim>\<open>Dict[str, Any]\<close> records around. A value of type
  \<^verbatim>\<open>Any\<close> is one of the kinds the flows and the stored entry really hold:
  \<^verbatim>\<open>None\<close>, a boolean, an integer or a string. A dictionary is a partial map
  from keys to such values.
\<close>

datatype pyval = PNone | PBool bool | PInt int | PStr string

type_synonym pydict = "string \<rightharpoonup> pyval"

text \<open>Exceptions are values: every \<^verbatim>\<open>raise\<close> of the source is an \<open>Inl\<close> result.\<close>

datatype error =
    KeyError string
  | ConfigEntryNotReady string
  | TransportError string




section \<open>Constants (const.py, config\_flow.py)\<close>

definition CONF_DEVICE_TYPE :: string where
  "CONF_DEVICE_TYPE = ''device_type''"

text \<open>\<^verbatim>\<open>homeassistant.const.CONF_ADDRESS\<close>, a constant of the host.\<close>

definition CONF_ADDRESS :: string where
  "CONF_ADDRESS = ''address''"

definition AUTO_DETECT :: pyval where
  "AUTO_DETECT = PStr ''Auto Detect''"

definition DEVICE_OPTIONS :: "string list" where
  "DEVICE_OPTIONS =
     [''Auto Detect'', ''AC2P'', ''AC2A'', ''EB3A'', ''AC200M'', ''AC300'', ''AC500'',
      ''EP500'', ''EP600'', ''EB70'']"

section \<open>The configuration records (package types)\<close>

text \<open>
  Only \<^verbatim>\<open>types/FullDeviceConfig.py\<close> is part of the sources. The fields of the
  other three classes are the ones the sources construct and read:
  \<^verbatim>\<open>ManufacturerData(dev_type, use_encryption)\<close>,
  \<^verbatim>\<open>InitialDeviceConfig(address, name, dev_type, use_encryption)\<close> and the three
  attributes of \<^verbatim>\<open>OptionalDeviceConfig\<close> copied by \<^verbatim>\<open>FullDeviceConfig.__init__\<close>.
  The address and the device type are whatever the submitted form or the stored record
  holds under their keys, so they are \<open>pyval\<close>s.
\<close>

record ManufacturerData =
  md_dev_type :: string
  md_use_encryption :: bool

record InitialDeviceConfig =
  i_address :: pyval
  i_name :: string
  i_dev_type :: pyval
  i_use_encryption :: bool

record OptionalDeviceConfig =
  o_polling_interval :: int
  o_polling_timeout :: int
  o_max_retries :: int

record FullDeviceConfig =
  address :: pyval
  name :: string
  dev_type :: pyval
  use_encryption :: bool
  polling_interval :: int
  polling_timeout :: int
  max_retries :: int

subsection \<open>OptionalDeviceConfig\<close>

text \<open>
  Modelled from the spec: \<^verbatim>\<open>types/OptionalDeviceConfig.py\<close> is missing. The reasons
  returned by validation are "a distinct named reason for each" rejected field; their
  spelling is not given, so they are three constructors.
\<close>

datatype validation_reason =
    InvalidPollingInterval
  | InvalidPollingTimeout
  | InvalidMaxRetries

text \<open>
  Modelled from the spec: \<^verbatim>\<open>dict.get\<close> of an integer setting of the missing
  \<^verbatim>\<open>OptionalDeviceConfig.from_dict\<close>, "defaults applied when absent". The settings are
  integers; a key that holds no integer is read like an absent one.
\<close>

definition get_int :: "pydict \<Rightarrow> string \<Rightarrow> int \<Rightarrow> int" where
  "get_int raw k d = (case raw k of Some (PInt n) \<Rightarrow> n | _ \<Rightarrow> d)"

text \<open>
  Modelled from the spec: the missing \<^verbatim>\<open>OptionalDeviceConfig.from_dict\<close>. The keys
  are the field names of section 3 of the spec; the default values are not given there
  and are the parameter \<open>dflt\<close>.
\<close>

definition OptionalDeviceConfig_from_dict ::
  "OptionalDeviceConfig \<Rightarrow> pydict \<Rightarrow> OptionalDeviceConfig" where
  "OptionalDeviceConfig_from_dict dflt raw =
     \<lparr>o_polling_interval = get_int raw ''polling_interval'' (o_polling_interval dflt),
      o_polling_timeout = get_int raw ''polling_timeout'' (o_polling_timeout dflt),
      o_max_retries = get_int raw ''max_retries'' (o_max_retries dflt)\<rparr>"

text \<open>
  Modelled from the spec: the missing \<^verbatim>\<open>OptionalDeviceConfig.as_dict\<close>, the
  "dictionary encoding" of the three settings (the \<^verbatim>\<open>to_dict\<close> of the spec).
\<close>

definition OptionalDeviceConfig_as_dict :: "OptionalDeviceConfig \<Rightarrow> pydict" where
  "OptionalDeviceConfig_as_dict c =
     [''polling_interval'' \<mapsto> PInt (o_polling_interval c),
      ''polling_timeout'' \<mapsto> PInt (o_polling_timeout c),
      ''max_retries'' \<mapsto> PInt (o_max_retries c)]"

text \<open>
  Modelled from the spec: the missing \<^verbatim>\<open>OptionalDeviceConfig.validate\<close>. "Validation
  rejects \<^verbatim>\<open>polling_interval <= 0\<close>, \<^verbatim>\<open>polling_timeout <= 0\<close>, and negative
  \<^verbatim>\<open>max_retries\<close>"; \<open>None\<close> means the settings are accepted. The fields are checked
  in the order the spec lists them.
\<close>

definition validate :: "OptionalDeviceConfig \<Rightarrow> validation_reason option" where
  "validate c =
     (if o_polling_interval c \<le> 0 then Some InvalidPollingInterval
      else if o_polling_timeout c \<le> 0 then Some InvalidPollingTimeout
      else if o_max_retries c < 0 then Some InvalidMaxRetries
      else None)"

subsection \<open>FullDeviceConfig (types/FullDeviceConfig.py)\<close>

definition FullDeviceConfig_init ::
  "InitialDeviceConfig \<Rightarrow> OptionalDeviceConfig \<Rightarrow> FullDeviceConfig" where
  "FullDeviceConfig_init initial optional =
     \<lparr>address = i_address initial,
      name = i_name initial,
      dev_type = i_dev_type initial,
      use_encryption = i_use_encryption initial,
      polling_interval = o_polling_interval optional,
      polling_timeout = o_polling_timeout optional,
      max_retries = o_max_retries optional\<rparr>"

text \<open>
  \<^verbatim>\<open>FullDeviceConfig.from_dict\<close>. The missing \<^verbatim>\<open>InitialDeviceConfig.from_dict\<close> is
  the parameter \<open>initial_from_dict\<close>; it returns \<open>None\<close> for Python's \<^verbatim>\<open>None\<close>. The
  assignment to \<^verbatim>\<open>initial.dev_type\<close> is a record update of the freshly decoded value.
\<close>

definition FullDeviceConfig_from_dict ::
  "(pydict \<Rightarrow> InitialDeviceConfig option) \<Rightarrow> OptionalDeviceConfig \<Rightarrow> pydict
     \<Rightarrow> FullDeviceConfig option" where
  "FullDeviceConfig_from_dict initial_from_dict dflt raw =
     (case initial_from_dict raw of
        None \<Rightarrow> None
      | Some initial \<Rightarrow>
          let initial' =
                (case raw CONF_DEVICE_TYPE of
                   Some v \<Rightarrow> initial\<lparr>i_dev_type := v\<rparr>
                 | None \<Rightarrow> initial)
          in Some (FullDeviceConfig_init initial' (OptionalDeviceConfig_from_dict dflt raw)))"

text \<open>
  A decoder of the initial layer for the concrete examples below: it needs the four
  identity fields under the field names of the spec and yields \<open>None\<close> when one of them
  is absent or of the wrong kind.
\<close>

definition example_initial_from_dict :: "pydict \<Rightarrow> InitialDeviceConfig option" where
  "example_initial_from_dict raw =
     (case (raw ''address'', raw ''name'', raw ''dev_type'', raw ''use_encryption'') of
        (Some (PStr a), Some (PStr n), Some (PStr t), Some (PBool e)) \<Rightarrow>
          Some \<lparr>i_address = PStr a, i_name = n, i_dev_type = PStr t, i_use_encryption = e\<rparr>
      | _ \<Rightarrow> None)"

subsection \<open>Object identity of FullDeviceConfig instances\<close>







section \<open>The setup flow (config\_flow.py)\<close>

subsection \<open>Name sanitization\<close>

text \<open>The character class \<^verbatim>\<open>[A-Z0-9]\<close>.\<close>

definition in_class :: "char \<Rightarrow> bool" where
  "in_class c \<longleftrightarrow>
     (let n = (of_char c :: nat) in (65 \<le> n \<and> n \<le> 90) \<or> (48 \<le> n \<and> n \<le> 57))"

text \<open>
  \<^verbatim>\<open>re.sub("[^A-Z0-9]+", "", s)\<close>: scanning from the left, a character of the class is
  copied; at any other character the pattern matches the longest run of characters
  outside the class, which is replaced by the empty string.
\<close>

function re_sub_strip :: "string \<Rightarrow> string" where
  "re_sub_strip [] = []"
| "re_sub_strip (c # cs) =
     (if in_class c then c # re_sub_strip cs
      else re_sub_strip (dropWhile (\<lambda>x. \<not> in_class x) cs))"
  by pat_completeness auto
termination
  by (relation "measure length") (auto simp: length_dropWhile_le le_imp_less_Suc)

subsection \<open>Host environment and flow state\<close>

text \<open>
  A discovery record of the host's bluetooth layer. The manufacturer data is a
  dictionary whose encoding belongs to the missing \<^verbatim>\<open>ManufacturerData\<close> class, so its
  type is the parameter \<open>'m\<close>.
\<close>

record 'm service_info =
  si_address :: string
  si_name :: string
  si_manufacturer_data :: 'm

text \<open>
  What the flow reads from the host: the point-in-time discovery snapshot
  (\<^verbatim>\<open>bluetooth.async_discovered_service_info\<close>), the unique ids of the entries that are
  already configured and of the other flows in progress.
\<close>

record 'm hass =
  discovered :: "'m service_info list"
  configured :: "pyval list"
  in_progress :: "pyval list"

record 'm flow =
  discovery_info :: "'m service_info option"
  unique_id :: "pyval option"
  title_placeholders :: "string option"

text \<open>What \<^verbatim>\<open>recognize_device\<close> of the external library returns for a supported device.\<close>

record recognized =
  rec_name :: string
  rec_full_name :: string
  rec_encrypted :: bool
  rec_iot_version :: int

datatype reason = Reason string | Invalid validation_reason

datatype form =
    UserForm "(string \<times> string) list" string "string list"
  | InitForm OptionalDeviceConfig pyval "string list"

datatype flow_result =
    Abort reason
  | CreateEntry string pydict
  | ShowForm string form

text \<open>\<^verbatim>\<open>name.startswith(("AC", "EB", "EP", "BLUETTI"))\<close>.\<close>

definition startswith :: "string \<Rightarrow> string list \<Rightarrow> bool" where
  "startswith s ps \<longleftrightarrow> list_ex (\<lambda>p. take (length p) s = p) ps"

definition is_candidate :: "string \<Rightarrow> bool" where
  "is_candidate n \<longleftrightarrow> startswith n [''AC'', ''EB'', ''EP'', ''BLUETTI'']"

text \<open>
  The scan loop of \<^verbatim>\<open>async_step_user\<close>. \<^verbatim>\<open>choices\<close> is a dictionary in insertion
  order: an association list, where storing under a key that is present replaces its value.
\<close>

fun scan_choices ::
  "'m service_info list \<Rightarrow> (string \<times> string) list \<Rightarrow> (string \<times> string) list" where
  "scan_choices [] choices = choices"
| "scan_choices (di # rest) choices =
     (let n = si_name di in
      if is_candidate n
      then scan_choices rest
             (AList.update (si_address di) (n @ '' ('' @ si_address di @ '')'') choices)
      else scan_choices rest choices)"

text \<open>
  \<^verbatim>\<open>next((si for si in service_infos if si.address == address), self._discovery_info)\<close>
\<close>

definition find_discovery_info ::
  "'m service_info list \<Rightarrow> pyval \<Rightarrow> 'm service_info option \<Rightarrow> 'm service_info option" where
  "find_discovery_info service_infos addr fallback =
     (case find (\<lambda>si. PStr (si_address si) = addr) service_infos of
        Some si \<Rightarrow> Some si
      | None \<Rightarrow> fallback)"

text \<open>
  Lines 96 to 112 of \<^verbatim>\<open>async_step_user\<close>: the \<^verbatim>\<open>InitialDeviceConfig\<close> built from
  the submitted address, the selected type and the discovery record. The missing
  \<^verbatim>\<open>ManufacturerData.from_dict\<close> is the parameter \<open>md_from_dict\<close>.
\<close>

definition initial_of_submission ::
  "('m \<Rightarrow> ManufacturerData) \<Rightarrow> pyval \<Rightarrow> pyval \<Rightarrow> 'm service_info \<Rightarrow> InitialDeviceConfig" where
  "initial_of_submission md_from_dict addr manual_type di =
     (let n = re_sub_strip (si_name di);
          manufacturer_data = md_from_dict (si_manufacturer_data di);
          dt = (if manual_type \<noteq> AUTO_DETECT then manual_type
                else PStr (md_dev_type manufacturer_data))
      in \<lparr>i_address = addr, i_name = n, i_dev_type = dt,
          i_use_encryption = md_use_encryption manufacturer_data\<rparr>)"

text \<open>
  \<^verbatim>\<open>BluettiConfigFlow.async_step_user\<close>. The host's
  \<^verbatim>\<open>async_set_unique_id(address, raise_on_progress=False)\<close> records the id, and
  \<^verbatim>\<open>_abort_if_unique_id_configured\<close> aborts the flow with \<^verbatim>\<open>already_configured\<close> when
  an entry with that id (other than \<^verbatim>\<open>None\<close>) exists. The missing
  \<^verbatim>\<open>InitialDeviceConfig.as_dict\<close> is the parameter \<open>initial_as_dict\<close>.
\<close>

definition async_step_user ::
  "('m \<Rightarrow> ManufacturerData) \<Rightarrow> (InitialDeviceConfig \<Rightarrow> pydict) \<Rightarrow> OptionalDeviceConfig
     \<Rightarrow> 'm hass \<Rightarrow> 'm flow \<Rightarrow> pydict option \<Rightarrow> (error + flow_result) \<times> 'm flow" where
  "async_step_user md_from_dict initial_as_dict dflt h self user_input =
     (case user_input of
        Some ui \<Rightarrow>
          (case ui CONF_ADDRESS of
             None \<Rightarrow> (Inl (KeyError CONF_ADDRESS), self)
           | Some addr \<Rightarrow>
               let manual_type =
                     (case ui CONF_DEVICE_TYPE of Some t \<Rightarrow> t | None \<Rightarrow> AUTO_DETECT)
               in (case find_discovery_info (discovered h) addr (discovery_info self) of
                     None \<Rightarrow> (Inr (Abort (Reason ''device_not_found'')), self)
                   | Some di \<Rightarrow>
                       let self' = self\<lparr>unique_id := (if addr = PNone then None else Some addr)\<rparr>
                       in if addr \<noteq> PNone \<and> addr \<in> set (configured h)
                          then (Inr (Abort (Reason ''already_configured'')), self')
                          else
                            let data = initial_of_submission md_from_dict addr manual_type di;
                                optional = OptionalDeviceConfig_from_dict dflt Map.empty
                            in (Inr (CreateEntry (i_name data)
                                       (initial_as_dict data ++
                                        OptionalDeviceConfig_as_dict optional)),
                                self')))
      | None \<Rightarrow>
          let choices = scan_choices (discovered h) []
          in if choices = []
             then (Inr (Abort (Reason ''no_devices_found'')), self)
             else (Inr (ShowForm ''user'' (UserForm choices ''Auto Detect'' DEVICE_OPTIONS)),
                   self))"

text \<open>
  \<^verbatim>\<open>BluettiConfigFlow.async_step_bluetooth\<close>. The host's
  \<^verbatim>\<open>async_set_unique_id(address)\<close> aborts with \<^verbatim>\<open>already_in_progress\<close> when another
  flow holds the same id, and \<^verbatim>\<open>_abort_if_unique_id_configured\<close> aborts with
  \<^verbatim>\<open>already_configured\<close>. The external \<^verbatim>\<open>recognize_device\<close> is the parameter
  \<open>recognize_device\<close>, the missing \<^verbatim>\<open>ManufacturerData.as_dict\<close> is \<open>md_as_dict\<close>.
\<close>

definition async_step_bluetooth ::
  "(string \<Rightarrow> recognized option) \<Rightarrow> (ManufacturerData \<Rightarrow> 'm) \<Rightarrow> ('m \<Rightarrow> ManufacturerData)
     \<Rightarrow> (InitialDeviceConfig \<Rightarrow> pydict) \<Rightarrow> OptionalDeviceConfig
     \<Rightarrow> 'm hass \<Rightarrow> 'm flow \<Rightarrow> 'm service_info \<Rightarrow> (error + flow_result) \<times> 'm flow" where
  "async_step_bluetooth recognize_device md_as_dict md_from_dict initial_as_dict dflt h self di =
     (let uid = PStr (si_address di);
          self1 = self\<lparr>unique_id := Some uid\<rparr>
      in if uid \<in> set (in_progress h)
         then (Inr (Abort (Reason ''already_in_progress'')), self1)
         else if uid \<in> set (configured h)
         then (Inr (Abort (Reason ''already_configured'')), self1)
         else
           (case recognize_device (si_address di) of
              None \<Rightarrow> (Inr (Abort (Reason ''Device type not supported'')), self1)
            | Some r \<Rightarrow>
                let di' = di\<lparr>si_manufacturer_data :=
                               md_as_dict \<lparr>md_dev_type = rec_name r,
                                           md_use_encryption = rec_encrypted r\<rparr>,
                             si_name := rec_full_name r\<rparr>;
                    self2 = self1\<lparr>discovery_info := Some di',
                                  title_placeholders := Some (si_name di')\<rparr>
                in async_step_user md_from_dict initial_as_dict dflt h self2 None))"

subsection \<open>The options flow\<close>

record config_entry =
  data :: pydict
  options :: pydict

text \<open>
  \<^verbatim>\<open>OptionsFlowHandler.async_step_init\<close>. The second component is the config entry
  after the step: \<^verbatim>\<open>async_update_entry\<close> is the only place that changes it.
\<close>

definition async_step_init ::
  "OptionalDeviceConfig \<Rightarrow> config_entry \<Rightarrow> pydict option \<Rightarrow> flow_result \<times> config_entry" where
  "async_step_init dflt entry user_input =
     (case user_input of
        Some ui \<Rightarrow>
          let manual_type = (case ui CONF_DEVICE_TYPE of Some t \<Rightarrow> t | None \<Rightarrow> PNone);
              cfg = OptionalDeviceConfig_from_dict dflt ui
          in (case validate cfg of
                Some r \<Rightarrow> (Abort (Invalid r), entry)
              | None \<Rightarrow>
                  (CreateEntry [] ((OptionalDeviceConfig_as_dict cfg)(CONF_DEVICE_TYPE \<mapsto> manual_type)),
                   entry\<lparr>data := data entry ++ OptionalDeviceConfig_as_dict cfg\<rparr>))
      | None \<Rightarrow>
          let defaults = OptionalDeviceConfig_from_dict dflt (data entry);
              current_type =
                (case options entry CONF_DEVICE_TYPE of
                   Some t \<Rightarrow> t
                 | None \<Rightarrow>
                     (case data entry CONF_DEVICE_TYPE of
                        Some t \<Rightarrow> t
                      | None \<Rightarrow> AUTO_DETECT))
          in (ShowForm ''init'' (InitForm defaults current_type DEVICE_OPTIONS), entry))"

section \<open>The polling coordinator (coordinator.py)\<close>

text \<open>
  The reader of the external library, as the constructor call builds it: the address,
  the device object, the \<^verbatim>\<open>DeviceReaderConfig\<close> (timeout, encryption) and the lock it
  was given. A lock is named by a number.
\<close>

record 'dev DeviceReader =
  r_address :: pyval
  r_device :: 'dev
  r_polling_timeout :: int
  r_use_encryption :: bool
  r_lock :: nat

record 'dev PollingCoordinator =
  coordinator_name :: string
  update_interval :: int
  config :: FullDeviceConfig
  reader :: "'dev DeviceReader"
  last_update_success :: bool


text \<open>
  \<^verbatim>\<open>PollingCoordinator._async_update_data\<close>, one tick. \<open>address_present\<close> is the
  host's \<^verbatim>\<open>bluetooth.async_address_present(hass, address, connectable=True)\<close> at this
  tick, \<open>read\<close> is what \<^verbatim>\<open>reader.read()\<close> does at this tick: it raises (\<open>Inl\<close>) or
  returns a record or \<^verbatim>\<open>None\<close>.
\<close>

definition async_update_data ::
  "(pyval \<Rightarrow> bool) \<Rightarrow> ('dev DeviceReader \<Rightarrow> error + 'd option) \<Rightarrow> 'dev PollingCoordinator
     \<Rightarrow> (error + 'd option) \<times> 'dev PollingCoordinator" where
  "async_update_data address_present read c =
     (if address_present (address (config c)) = False
      then (Inr None, c\<lparr>last_update_success := False\<rparr>)
      else (read (reader c), c))"


section \<open>Concrete instances\<close>

text \<open>
  Instances of the parameters, for the concrete evaluations below: default settings,
  a dictionary codec for the manufacturer data and for the initial layer, one
  discovery record, a host and a fresh flow.
\<close>

definition example_defaults :: OptionalDeviceConfig where
  "example_defaults = \<lparr>o_polling_interval = 20, o_polling_timeout = 45, o_max_retries = 5\<rparr>"

definition example_md_as_dict :: "ManufacturerData \<Rightarrow> pydict" where
  "example_md_as_dict md =
     [''dev_type'' \<mapsto> PStr (md_dev_type md),
      ''use_encryption'' \<mapsto> PBool (md_use_encryption md)]"

definition example_md_from_dict :: "pydict \<Rightarrow> ManufacturerData" where
  "example_md_from_dict d =
     \<lparr>md_dev_type = (case d ''dev_type'' of Some (PStr t) \<Rightarrow> t | _ \<Rightarrow> ''Unknown''),
      md_use_encryption = (case d ''use_encryption'' of Some (PBool e) \<Rightarrow> e | _ \<Rightarrow> False)\<rparr>"

definition example_initial_as_dict :: "InitialDeviceConfig \<Rightarrow> pydict" where
  "example_initial_as_dict i =
     [''address'' \<mapsto> i_address i, ''name'' \<mapsto> PStr (i_name i),
      ''dev_type'' \<mapsto> i_dev_type i, ''use_encryption'' \<mapsto> PBool (i_use_encryption i)]"

definition example_info :: "pydict service_info" where
  "example_info =
     \<lparr>si_address = ''AA:BB:CC:DD:EE:FF'', si_name = ''AC200M2237000123456'',
      si_manufacturer_data =
        example_md_as_dict \<lparr>md_dev_type = ''AC200M'', md_use_encryption = False\<rparr>\<rparr>"

definition example_hass :: "pydict hass" where
  "example_hass = \<lparr>discovered = [example_info], configured = [], in_progress = []\<rparr>"

definition example_flow :: "pydict flow" where
  "example_flow = \<lparr>discovery_info = None, unique_id = None, title_placeholders = None\<rparr>"

definition example_initial :: InitialDeviceConfig where
  "example_initial =
     \<lparr>i_address = PStr ''AA:BB:CC:DD:EE:FF'', i_name = ''AC300123'',
      i_dev_type = PStr ''AC300'', i_use_encryption = False\<rparr>"

definition example_config :: FullDeviceConfig where
  "example_config =
     FullDeviceConfig_init example_initial
       \<lparr>o_polling_interval = 10, o_polling_timeout = 45, o_max_retries = 5\<rparr>"


definition example_coordinator :: "string PollingCoordinator" where
  "example_coordinator =
     \<lparr>coordinator_name = ''Bluetti polling coordinator'',
      update_interval = 10,
      config = example_config,
      reader = \<lparr>r_address = PStr ''AA:BB:CC:DD:EE:FF'', r_device = ''AC300 device'',
                r_polling_timeout = 45, r_use_encryption = False, r_lock = 0\<rparr>,
      last_update_success = True\<rparr>"

text \<open>A tick on which the host does not see the address, and one on which it does.\<close>

definition unreachable :: "pyval \<Rightarrow> bool" where
  "unreachable a = False"

definition reachable :: "pyval \<Rightarrow> bool" where
  "reachable a = True"

definition example_read :: "string DeviceReader \<Rightarrow> error + (string \<times> int) list option" where
  "example_read r = Inr (Some [(''total_battery_percent'', 80)])"

definition example_other_info :: "pydict service_info" where
  "example_other_info =
     \<lparr>si_address = ''11:22:33:44:55:66'', si_name = ''Kitchen speaker'',
      si_manufacturer_data = Map.empty\<rparr>"

definition example_hass_no_candidate :: "pydict hass" where
  "example_hass_no_candidate =
     \<lparr>discovered = [example_other_info], configured = [], in_progress = []\<rparr>"

definition example_hass_configured :: "pydict hass" where
  "example_hass_configured =
     \<lparr>discovered = [example_info], configured = [PStr ''AA:BB:CC:DD:EE:FF''], in_progress = []\<rparr>"

definition example_hass_in_progress :: "pydict hass" where
  "example_hass_in_progress =
     \<lparr>discovered = [example_info], configured = [PStr ''AA:BB:CC:DD:EE:FF''],
      in_progress = [PStr ''AA:BB:CC:DD:EE:FF'']\<rparr>"

definition recognizes_nothing :: "string \<Rightarrow> recognized option" where
  "recognizes_nothing a = None"

definition example_submission :: pydict where
  "example_submission =
     [CONF_ADDRESS \<mapsto> PStr ''AA:BB:CC:DD:EE:FF'', CONF_DEVICE_TYPE \<mapsto> PStr ''AC300'']"

definition example_raw :: pydict where
  "example_raw =
     [''address'' \<mapsto> PStr ''AA:BB:CC:DD:EE:FF'', ''name'' \<mapsto> PStr ''AC200M2237000123456'',
      ''dev_type'' \<mapsto> PStr ''AC200M'', ''use_encryption'' \<mapsto> PBool False,
      CONF_DEVICE_TYPE \<mapsto> PStr ''EP500'']"

definition example_entry :: config_entry where
  "example_entry =
     \<lparr>data = example_initial_as_dict example_initial ++ OptionalDeviceConfig_as_dict example_defaults,
      options = Map.empty\<rparr>"



section \<open>Name sanitization\<close>

lemma re_sub_strip_dropWhile:
  "re_sub_strip (dropWhile (\<lambda>x. \<not> in_class x) cs) = re_sub_strip cs"
  by (induction cs) auto

lemma re_sub_strip_filter: "re_sub_strip s = filter in_class s"
  by (induction s) (auto simp: re_sub_strip_dropWhile)

lemma in_class_set:
  "in_class c \<longleftrightarrow> c \<in> set ''ABCDEFGHIJKLMNOPQRSTUVWXYZ0123456789''"
  by (cases c) (simp add: in_class_def Let_def)

text \<open>
  C6, as stated, at its own example: the claim says that sanitizing
  \<^verbatim>\<open>"Bluetti-AC200M_01"\<close> yields \<^verbatim>\<open>"BLUETTIAC200M01"\<close>. The substitution only
  removes characters; it does not turn a lower-case letter into its capital, so the
  letters \<^verbatim>\<open>luetti\<close> are removed with the hyphen and the underscore.
\<close>

theorem re_sub_strip_example_counterexample:
  "re_sub_strip ''Bluetti-AC200M_01'' \<noteq> ''BLUETTIAC200M01''"
  by (simp add: in_class_def)

text \<open>
  C6 (amended): name sanitization removes every character outside \<^verbatim>\<open>[A-Z0-9]\<close> from
  the advertised name and keeps the others in order; in particular sanitizing
  \<^verbatim>\<open>"Bluetti-AC200M_01"\<close> yields \<^verbatim>\<open>"BAC200M01"\<close>.
\<close>

theorem re_sub_strip_keeps_class:
  "re_sub_strip s = filter (\<lambda>c. c \<in> set ''ABCDEFGHIJKLMNOPQRSTUVWXYZ0123456789'') s
   \<and> re_sub_strip ''Bluetti-AC200M_01'' = ''BAC200M01''"
proof
  have "filter in_class s = filter (\<lambda>c. c \<in> set ''ABCDEFGHIJKLMNOPQRSTUVWXYZ0123456789'') s"
    by (rule filter_cong) (simp_all only: in_class_set)
  then show "re_sub_strip s = filter (\<lambda>c. c \<in> set ''ABCDEFGHIJKLMNOPQRSTUVWXYZ0123456789'') s"
    by (simp only: re_sub_strip_filter)
  show "re_sub_strip ''Bluetti-AC200M_01'' = ''BAC200M01''"
    by (simp add: in_class_def)
qed

section \<open>The optional settings\<close>

text \<open>
  C7: decoding the dictionary encoding of an \<^verbatim>\<open>OptionalDeviceConfig\<close> gives the value
  back, field by field: \<^verbatim>\<open>from_dict(to_dict(x)) == x\<close>. It holds for every \<open>x\<close> and
  every choice of defaults, so for every valid \<open>x\<close> in particular.
\<close>

theorem OptionalDeviceConfig_roundtrip:
  "OptionalDeviceConfig_from_dict dflt (OptionalDeviceConfig_as_dict x) = x"
  by (simp add: OptionalDeviceConfig_from_dict_def OptionalDeviceConfig_as_dict_def get_int_def)

section \<open>Rebuilding the full configuration\<close>

text \<open>
  C10: whenever \<^verbatim>\<open>InitialDeviceConfig.from_dict\<close> returns \<^verbatim>\<open>None\<close> for a raw
  dictionary, \<^verbatim>\<open>FullDeviceConfig.from_dict\<close> returns \<^verbatim>\<open>None\<close> for it too, whatever
  else the dictionary holds (a device-type override, valid optional settings) and
  whatever the decoder of the initial layer is.
\<close>

theorem FullDeviceConfig_from_dict_needs_initial:
  "initial_from_dict raw = None \<Longrightarrow> FullDeviceConfig_from_dict initial_from_dict dflt raw = None"
  by (simp add: FullDeviceConfig_from_dict_def)

theorem FullDeviceConfig_from_dict_needs_initial_witness:
  "example_initial_from_dict
     [CONF_DEVICE_TYPE \<mapsto> PStr ''AC300'', ''polling_interval'' \<mapsto> PInt 30] = None
   \<and> FullDeviceConfig_from_dict example_initial_from_dict example_defaults
       [CONF_DEVICE_TYPE \<mapsto> PStr ''AC300'', ''polling_interval'' \<mapsto> PInt 30] = None"
proof -
  have h: "example_initial_from_dict
     [CONF_DEVICE_TYPE \<mapsto> PStr ''AC300'', ''polling_interval'' \<mapsto> PInt 30] = None"
    by (simp add: example_initial_from_dict_def CONF_DEVICE_TYPE_def)
  from h FullDeviceConfig_from_dict_needs_initial
         [of example_initial_from_dict
             "[CONF_DEVICE_TYPE \<mapsto> PStr ''AC300'', ''polling_interval'' \<mapsto> PInt 30]"
             example_defaults]
  show ?thesis by simp
qed

section \<open>The polling coordinator\<close>



text \<open>
  C2: on a tick on which the host does not report the address as present, the update
  function returns \<^verbatim>\<open>None\<close> (a normal return, not an exception) and the coordinator
  is left with \<^verbatim>\<open>last_update_success = False\<close> and otherwise unchanged, so it can be
  called again on the next tick; on a tick on which the address is present the result is
  whatever the reader's \<^verbatim>\<open>read()\<close> gives, and the coordinator is unchanged.
\<close>

theorem async_update_data_tick:
  "(\<not> address_present (address (config c)) \<longrightarrow>
      async_update_data address_present read c = (Inr None, c\<lparr>last_update_success := False\<rparr>))
   \<and> (address_present (address (config c)) \<longrightarrow>
      async_update_data address_present read c = (read (reader c), c))"
  by (simp add: async_update_data_def)

text \<open>The scenario of the spec: unreachable on tick 1, reachable on tick 2.\<close>

theorem async_update_data_tick_witness:
  "fst (async_update_data unreachable example_read example_coordinator) = Inr None
   \<and> \<not> last_update_success (snd (async_update_data unreachable example_read example_coordinator))
   \<and> fst (async_update_data reachable example_read
             (snd (async_update_data unreachable example_read example_coordinator)))
       = example_read (reader example_coordinator)"
proof -
  let ?c1 = "snd (async_update_data unreachable example_read example_coordinator)"
  have h1: "\<not> unreachable (address (config example_coordinator))"
    by (simp add: unreachable_def)
  have h2: "reachable (address (config ?c1))"
    by (simp add: reachable_def)
  from h1 async_update_data_tick [of unreachable example_coordinator example_read]
  have t1: "async_update_data unreachable example_read example_coordinator =
              (Inr None, example_coordinator\<lparr>last_update_success := False\<rparr>)"
    by simp
  from h2 async_update_data_tick [of reachable ?c1 example_read]
  have t2: "async_update_data reachable example_read ?c1 = (example_read (reader ?c1), ?c1)"
    by simp
  show ?thesis by (simp add: t2) (simp add: t1)
qed

section \<open>The setup flow\<close>

lemma scan_choices_keeps: "choices \<noteq> [] \<Longrightarrow> scan_choices infos choices \<noteq> []"
  by (induction infos arbitrary: choices) (auto simp: Let_def)

lemma scan_choices_Nil_iff:
  "scan_choices infos [] = [] \<longleftrightarrow> (\<forall>si \<in> set infos. \<not> is_candidate (si_name si))"
  by (induction infos) (auto simp: Let_def scan_choices_keeps)

lemma take_prefix_iff: "take (length p) s = p \<longleftrightarrow> (\<exists>rest. s = p @ rest)"
proof
  assume "take (length p) s = p"
  then have "s = p @ drop (length p) s" by (metis append_take_drop_id)
  then show "\<exists>rest. s = p @ rest" ..
next
  assume "\<exists>rest. s = p @ rest"
  then show "take (length p) s = p" by auto
qed

lemma is_candidate_prefix:
  "is_candidate n \<longleftrightarrow>
     (\<exists>p \<in> set [''AC'', ''EB'', ''EP'', ''BLUETTI'']. \<exists>rest. n = p @ rest)"
  unfolding is_candidate_def startswith_def list_ex_iff
  by (simp only: take_prefix_iff)

lemma find_discovery_info_None:
  "find_discovery_info infos addr fb = None \<longleftrightarrow>
     (\<forall>si \<in> set infos. PStr (si_address si) \<noteq> addr) \<and> fb = None"
  by (induction infos) (auto simp: find_discovery_info_def split: option.splits)

text \<open>
  C9: when the form step runs with no user input and no discovered name starts with
  \<^verbatim>\<open>AC\<close>, \<^verbatim>\<open>EB\<close>, \<^verbatim>\<open>EP\<close> or \<^verbatim>\<open>BLUETTI\<close>, the step aborts with
  \<^verbatim>\<open>no_devices_found\<close> and shows no form; when a submitted address equals the address
  of no record of the current snapshot and the flow holds no cached discovery record, the
  step aborts with \<^verbatim>\<open>device_not_found\<close>. In both cases the flow is left as it was.
\<close>

theorem async_step_user_aborts:
  "((\<forall>si \<in> set (discovered h). \<forall>p \<in> set [''AC'', ''EB'', ''EP'', ''BLUETTI''].
        \<forall>rest. si_name si \<noteq> p @ rest) \<longrightarrow>
      async_step_user md_from_dict initial_as_dict dflt h self None =
        (Inr (Abort (Reason ''no_devices_found'')), self))
   \<and> (ui CONF_ADDRESS = Some addr \<and> (\<forall>si \<in> set (discovered h). PStr (si_address si) \<noteq> addr)
        \<and> discovery_info self = None \<longrightarrow>
      async_step_user md_from_dict initial_as_dict dflt h self (Some ui) =
        (Inr (Abort (Reason ''device_not_found'')), self))"
proof (intro conjI impI)
  assume "\<forall>si \<in> set (discovered h). \<forall>p \<in> set [''AC'', ''EB'', ''EP'', ''BLUETTI''].
            \<forall>rest. si_name si \<noteq> p @ rest"
  then have "\<forall>si \<in> set (discovered h). \<not> is_candidate (si_name si)"
    unfolding is_candidate_prefix by blast
  then have "scan_choices (discovered h) [] = []"
    by (simp only: scan_choices_Nil_iff)
  then show "async_step_user md_from_dict initial_as_dict dflt h self None =
        (Inr (Abort (Reason ''no_devices_found'')), self)"
    by (simp add: async_step_user_def)
next
  assume a: "ui CONF_ADDRESS = Some addr \<and> (\<forall>si \<in> set (discovered h). PStr (si_address si) \<noteq> addr)
        \<and> discovery_info self = None"
  then have "find_discovery_info (discovered h) addr (discovery_info self) = None"
    by (simp only: find_discovery_info_None) simp
  with a show "async_step_user md_from_dict initial_as_dict dflt h self (Some ui) =
        (Inr (Abort (Reason ''device_not_found'')), self)"
    by (simp add: async_step_user_def)
qed

theorem async_step_user_aborts_witness:
  "async_step_user example_md_from_dict example_initial_as_dict example_defaults
     example_hass_no_candidate example_flow None =
       (Inr (Abort (Reason ''no_devices_found'')), example_flow)
   \<and> async_step_user example_md_from_dict example_initial_as_dict example_defaults
       example_hass_no_candidate example_flow (Some example_submission) =
       (Inr (Abort (Reason ''device_not_found'')), example_flow)"
proof -
  have h1: "\<forall>si \<in> set (discovered example_hass_no_candidate).
              \<forall>p \<in> set [''AC'', ''EB'', ''EP'', ''BLUETTI'']. \<forall>rest. si_name si \<noteq> p @ rest"
    by (simp add: example_hass_no_candidate_def example_other_info_def)
  have h2: "example_submission CONF_ADDRESS = Some (PStr ''AA:BB:CC:DD:EE:FF'')
            \<and> (\<forall>si \<in> set (discovered example_hass_no_candidate).
                  PStr (si_address si) \<noteq> PStr ''AA:BB:CC:DD:EE:FF'')
            \<and> discovery_info example_flow = None"
    by (simp add: example_submission_def CONF_ADDRESS_def CONF_DEVICE_TYPE_def
          example_hass_no_candidate_def example_other_info_def example_flow_def)
  from h1 h2
    async_step_user_aborts [of example_hass_no_candidate example_md_from_dict
      example_initial_as_dict example_defaults example_flow example_submission
      "PStr ''AA:BB:CC:DD:EE:FF''"]
  show ?thesis by blast
qed

lemma initial_of_submission_manual:
  "manual_type \<noteq> AUTO_DETECT \<Longrightarrow>
     i_dev_type (initial_of_submission md_from_dict addr manual_type di) = manual_type"
  by (simp add: initial_of_submission_def Let_def)

lemma initial_of_submission_auto:
  "i_dev_type (initial_of_submission md_from_dict addr AUTO_DETECT di) =
     PStr (md_dev_type (md_from_dict (si_manufacturer_data di)))"
  by (simp add: initial_of_submission_def Let_def)

lemma async_step_user_creates:
  "ui CONF_ADDRESS = Some addr \<Longrightarrow>
   find_discovery_info (discovered h) addr (discovery_info self) = Some di \<Longrightarrow>
   addr = PNone \<or> addr \<notin> set (configured h) \<Longrightarrow>
   fst (async_step_user md_from_dict initial_as_dict dflt h self (Some ui)) =
     Inr (CreateEntry
            (i_name (initial_of_submission md_from_dict addr
                       (case ui CONF_DEVICE_TYPE of Some t \<Rightarrow> t | None \<Rightarrow> AUTO_DETECT) di))
            (initial_as_dict (initial_of_submission md_from_dict addr
                       (case ui CONF_DEVICE_TYPE of Some t \<Rightarrow> t | None \<Rightarrow> AUTO_DETECT) di)
             ++ OptionalDeviceConfig_as_dict (OptionalDeviceConfig_from_dict dflt Map.empty)))"
  by (auto simp: async_step_user_def Let_def)

lemma FullDeviceConfig_from_dict_override:
  "initial_from_dict raw = Some initial \<Longrightarrow> raw CONF_DEVICE_TYPE = Some v \<Longrightarrow>
     map_option dev_type (FullDeviceConfig_from_dict initial_from_dict dflt raw) = Some v"
  by (simp add: FullDeviceConfig_from_dict_def FullDeviceConfig_init_def)

text \<open>
  C1: device-type precedence. The \<^verbatim>\<open>InitialDeviceConfig\<close> built from a submission
  has the selected type when the selection differs from \<^verbatim>\<open>"Auto Detect"\<close>, whatever
  the manufacturer data says, and the type decoded from the manufacturer data when the
  selection is \<^verbatim>\<open>"Auto Detect"\<close>; a submission that reaches the end of the step
  creates the entry from exactly that configuration, the selection being the value under
  the device-type key of the form (\<^verbatim>\<open>"Auto Detect"\<close> when the key is absent). When a
  \<^verbatim>\<open>FullDeviceConfig\<close> is rebuilt from a raw record whose initial layer decodes, a
  value under the device-type key of the record is the \<^verbatim>\<open>dev_type\<close> of the result.
\<close>

theorem device_type_precedence:
  "(manual_type \<noteq> AUTO_DETECT \<longrightarrow>
      i_dev_type (initial_of_submission md_from_dict addr manual_type di) = manual_type)
   \<and> i_dev_type (initial_of_submission md_from_dict addr AUTO_DETECT di) =
       PStr (md_dev_type (md_from_dict (si_manufacturer_data di)))
   \<and> (ui CONF_ADDRESS = Some addr
        \<and> find_discovery_info (discovered h) addr (discovery_info self) = Some di
        \<and> (addr = PNone \<or> addr \<notin> set (configured h)) \<longrightarrow>
      fst (async_step_user md_from_dict initial_as_dict dflt h self (Some ui)) =
        Inr (CreateEntry
               (i_name (initial_of_submission md_from_dict addr
                          (case ui CONF_DEVICE_TYPE of Some t \<Rightarrow> t | None \<Rightarrow> AUTO_DETECT) di))
               (initial_as_dict (initial_of_submission md_from_dict addr
                          (case ui CONF_DEVICE_TYPE of Some t \<Rightarrow> t | None \<Rightarrow> AUTO_DETECT) di)
                ++ OptionalDeviceConfig_as_dict (OptionalDeviceConfig_from_dict dflt Map.empty))))
   \<and> (initial_from_dict raw = Some initial \<and> raw CONF_DEVICE_TYPE = Some v \<longrightarrow>
      map_option dev_type (FullDeviceConfig_from_dict initial_from_dict dflt raw) = Some v)"
proof (intro conjI impI)
  assume "manual_type \<noteq> AUTO_DETECT"
  then show "i_dev_type (initial_of_submission md_from_dict addr manual_type di) = manual_type"
    by (rule initial_of_submission_manual)
next
  show "i_dev_type (initial_of_submission md_from_dict addr AUTO_DETECT di) =
       PStr (md_dev_type (md_from_dict (si_manufacturer_data di)))"
    by (rule initial_of_submission_auto)
next
  assume a: "ui CONF_ADDRESS = Some addr
        \<and> find_discovery_info (discovered h) addr (discovery_info self) = Some di
        \<and> (addr = PNone \<or> addr \<notin> set (configured h))"
  from a have a1: "ui CONF_ADDRESS = Some addr" by (rule conjunct1)
  from a have a2: "find_discovery_info (discovered h) addr (discovery_info self) = Some di"
    by simp
  from a have a3: "addr = PNone \<or> addr \<notin> set (configured h)" by simp
  show "fst (async_step_user md_from_dict initial_as_dict dflt h self (Some ui)) =
        Inr (CreateEntry
               (i_name (initial_of_submission md_from_dict addr
                          (case ui CONF_DEVICE_TYPE of Some t \<Rightarrow> t | None \<Rightarrow> AUTO_DETECT) di))
               (initial_as_dict (initial_of_submission md_from_dict addr
                          (case ui CONF_DEVICE_TYPE of Some t \<Rightarrow> t | None \<Rightarrow> AUTO_DETECT) di)
                ++ OptionalDeviceConfig_as_dict (OptionalDeviceConfig_from_dict dflt Map.empty)))"
    by (rule async_step_user_creates) (fact a1, fact a2, fact a3)
next
  assume b: "initial_from_dict raw = Some initial \<and> raw CONF_DEVICE_TYPE = Some v"
  from b have b1: "initial_from_dict raw = Some initial" by (rule conjunct1)
  from b have b2: "raw CONF_DEVICE_TYPE = Some v" by (rule conjunct2)
  show "map_option dev_type (FullDeviceConfig_from_dict initial_from_dict dflt raw) = Some v"
    by (rule FullDeviceConfig_from_dict_override) (fact b1, fact b2)
qed

theorem device_type_precedence_witness:
  "i_dev_type (initial_of_submission example_md_from_dict (PStr ''AA:BB:CC:DD:EE:FF'')
                 (PStr ''AC300'') example_info) = PStr ''AC300''
   \<and> i_dev_type (initial_of_submission example_md_from_dict (PStr ''AA:BB:CC:DD:EE:FF'')
                 AUTO_DETECT example_info) = PStr ''AC200M''
   \<and> fst (async_step_user example_md_from_dict example_initial_as_dict example_defaults
            example_hass example_flow (Some example_submission)) =
       Inr (CreateEntry ''AC200M2237000123456''
              (example_initial_as_dict
                 \<lparr>i_address = PStr ''AA:BB:CC:DD:EE:FF'', i_name = ''AC200M2237000123456'',
                  i_dev_type = PStr ''AC300'', i_use_encryption = False\<rparr>
               ++ OptionalDeviceConfig_as_dict example_defaults))
   \<and> map_option dev_type
       (FullDeviceConfig_from_dict example_initial_from_dict example_defaults example_raw) =
       Some (PStr ''EP500'')"
proof -
  have h1: "PStr ''AC300'' \<noteq> AUTO_DETECT"
    by (simp add: AUTO_DETECT_def)
  have h2: "example_submission CONF_ADDRESS = Some (PStr ''AA:BB:CC:DD:EE:FF'')
        \<and> find_discovery_info (discovered example_hass) (PStr ''AA:BB:CC:DD:EE:FF'')
             (discovery_info example_flow) = Some example_info
        \<and> (PStr ''AA:BB:CC:DD:EE:FF'' = PNone
             \<or> PStr ''AA:BB:CC:DD:EE:FF'' \<notin> set (configured example_hass))"
    by (simp add: example_submission_def CONF_ADDRESS_def CONF_DEVICE_TYPE_def
          find_discovery_info_def example_hass_def example_info_def)
  have h3: "example_initial_from_dict example_raw =
              Some \<lparr>i_address = PStr ''AA:BB:CC:DD:EE:FF'', i_name = ''AC200M2237000123456'',
                    i_dev_type = PStr ''AC200M'', i_use_encryption = False\<rparr>
            \<and> example_raw CONF_DEVICE_TYPE = Some (PStr ''EP500'')"
    by (simp add: example_initial_from_dict_def example_raw_def CONF_DEVICE_TYPE_def)
  have e1: "(case example_submission CONF_DEVICE_TYPE of Some t \<Rightarrow> t | None \<Rightarrow> AUTO_DETECT)
              = PStr ''AC300''"
    by (simp add: example_submission_def CONF_DEVICE_TYPE_def)
  have e2: "initial_of_submission example_md_from_dict (PStr ''AA:BB:CC:DD:EE:FF'')
              (PStr ''AC300'') example_info =
            \<lparr>i_address = PStr ''AA:BB:CC:DD:EE:FF'', i_name = ''AC200M2237000123456'',
             i_dev_type = PStr ''AC300'', i_use_encryption = False\<rparr>"
    by (simp add: initial_of_submission_def example_info_def example_md_from_dict_def
          example_md_as_dict_def AUTO_DETECT_def in_class_def)
  have e3: "OptionalDeviceConfig_from_dict example_defaults Map.empty = example_defaults"
    by (simp add: OptionalDeviceConfig_from_dict_def get_int_def)
  have e4: "md_dev_type (example_md_from_dict (si_manufacturer_data example_info)) = ''AC200M''"
    by (simp add: example_info_def example_md_from_dict_def example_md_as_dict_def)
  from h1 h2 h3
    device_type_precedence [of "PStr ''AC300''" example_md_from_dict
      "PStr ''AA:BB:CC:DD:EE:FF''" example_info example_submission example_hass example_flow
      example_initial_as_dict example_defaults example_initial_from_dict example_raw
      "\<lparr>i_address = PStr ''AA:BB:CC:DD:EE:FF'', i_name = ''AC200M2237000123456'',
        i_dev_type = PStr ''AC200M'', i_use_encryption = False\<rparr>" "PStr ''EP500''"]
  show ?thesis
    by (simp only: e1 e2 e3 e4) simp
qed

text \<open>
  C3, as stated, at a discovery whose address is already configured: the recognizer
  reports the address as unsupported, yet the step aborts with \<^verbatim>\<open>already_configured\<close>,
  because the duplicate check of lines 47 and 48 runs before the recognizer is called.
\<close>

theorem async_step_bluetooth_unsupported_counterexample:
  "recognizes_nothing (si_address example_info) = None
   \<and> fst (async_step_bluetooth recognizes_nothing example_md_as_dict example_md_from_dict
            example_initial_as_dict example_defaults example_hass_configured example_flow
            example_info) = Inr (Abort (Reason ''already_configured''))
   \<and> fst (async_step_bluetooth recognizes_nothing example_md_as_dict example_md_from_dict
            example_initial_as_dict example_defaults example_hass_configured example_flow
            example_info) \<noteq> Inr (Abort (Reason ''Device type not supported''))"
  by (simp add: recognizes_nothing_def async_step_bluetooth_def example_hass_configured_def
        example_info_def Let_def)

text \<open>
  C3 (amended): for every bluetooth discovery whose address the recognizer reports as
  unsupported, the step ends in an abort and never in a form or an entry, and no
  discovery record is cached in the flow. The reason is \<^verbatim>\<open>Device type not supported\<close>
  when the address is neither held by another flow in progress nor already configured;
  it is \<^verbatim>\<open>already_in_progress\<close> when another flow in progress holds the address, and
  \<^verbatim>\<open>already_configured\<close> when no other flow holds it and it is already configured.
\<close>

theorem async_step_bluetooth_unsupported:
  "recognize_device (si_address di) = None \<Longrightarrow>
     (PStr (si_address di) \<notin> set (in_progress h) \<and> PStr (si_address di) \<notin> set (configured h) \<longrightarrow>
        fst (async_step_bluetooth recognize_device md_as_dict md_from_dict initial_as_dict
               dflt h self di) = Inr (Abort (Reason ''Device type not supported'')))
     \<and> (PStr (si_address di) \<in> set (in_progress h) \<longrightarrow>
        fst (async_step_bluetooth recognize_device md_as_dict md_from_dict initial_as_dict
               dflt h self di) = Inr (Abort (Reason ''already_in_progress'')))
     \<and> (PStr (si_address di) \<notin> set (in_progress h) \<and> PStr (si_address di) \<in> set (configured h) \<longrightarrow>
        fst (async_step_bluetooth recognize_device md_as_dict md_from_dict initial_as_dict
               dflt h self di) = Inr (Abort (Reason ''already_configured'')))
     \<and> fst (async_step_bluetooth recognize_device md_as_dict md_from_dict initial_as_dict
               dflt h self di)
         \<in> {Inr (Abort (Reason ''already_in_progress'')),
            Inr (Abort (Reason ''already_configured'')),
            Inr (Abort (Reason ''Device type not supported''))}
     \<and> discovery_info (snd (async_step_bluetooth recognize_device md_as_dict md_from_dict
               initial_as_dict dflt h self di)) = discovery_info self"
  by (simp add: async_step_bluetooth_def Let_def)

theorem async_step_bluetooth_unsupported_witness:
  "fst (async_step_bluetooth recognizes_nothing example_md_as_dict example_md_from_dict
          example_initial_as_dict example_defaults example_hass example_flow example_info)
     = Inr (Abort (Reason ''Device type not supported''))
   \<and> fst (async_step_bluetooth recognizes_nothing example_md_as_dict example_md_from_dict
            example_initial_as_dict example_defaults example_hass_in_progress example_flow
            example_info)
       = Inr (Abort (Reason ''already_in_progress''))
   \<and> fst (async_step_bluetooth recognizes_nothing example_md_as_dict example_md_from_dict
            example_initial_as_dict example_defaults example_hass_configured example_flow
            example_info)
       = Inr (Abort (Reason ''already_configured''))
   \<and> discovery_info (snd (async_step_bluetooth recognizes_nothing example_md_as_dict
            example_md_from_dict example_initial_as_dict example_defaults example_hass
            example_flow example_info)) = None"
proof -
  have h: "recognizes_nothing (si_address example_info) = None"
    by (simp add: recognizes_nothing_def)
  have g1: "PStr (si_address example_info) \<notin> set (in_progress example_hass)
            \<and> PStr (si_address example_info) \<notin> set (configured example_hass)"
    by (simp add: example_hass_def)
  have g2: "PStr (si_address example_info) \<in> set (in_progress example_hass_in_progress)"
    by (simp add: example_hass_in_progress_def example_info_def)
  have g3: "PStr (si_address example_info) \<notin> set (in_progress example_hass_configured)
            \<and> PStr (si_address example_info) \<in> set (configured example_hass_configured)"
    by (simp add: example_hass_configured_def example_info_def)
  have f: "discovery_info example_flow = None"
    by (simp add: example_flow_def)
  from h g1 f
    async_step_bluetooth_unsupported [of recognizes_nothing example_info example_hass example_md_as_dict
      example_md_from_dict example_initial_as_dict example_defaults example_flow]
  have t1: "fst (async_step_bluetooth recognizes_nothing example_md_as_dict example_md_from_dict
                   example_initial_as_dict example_defaults example_hass example_flow
                   example_info)
              = Inr (Abort (Reason ''Device type not supported''))
            \<and> discovery_info (snd (async_step_bluetooth recognizes_nothing example_md_as_dict
                   example_md_from_dict example_initial_as_dict example_defaults example_hass
                   example_flow example_info)) = None"
    by simp
  from h g2
    async_step_bluetooth_unsupported [of recognizes_nothing example_info example_hass_in_progress example_md_as_dict
      example_md_from_dict example_initial_as_dict example_defaults example_flow]
  have t2: "fst (async_step_bluetooth recognizes_nothing example_md_as_dict example_md_from_dict
                   example_initial_as_dict example_defaults example_hass_in_progress
                   example_flow example_info)
              = Inr (Abort (Reason ''already_in_progress''))"
    by blast
  from h g3
    async_step_bluetooth_unsupported [of recognizes_nothing example_info example_hass_configured example_md_as_dict
      example_md_from_dict example_initial_as_dict example_defaults example_flow]
  have t3: "fst (async_step_bluetooth recognizes_nothing example_md_as_dict example_md_from_dict
                   example_initial_as_dict example_defaults example_hass_configured
                   example_flow example_info)
              = Inr (Abort (Reason ''already_configured''))"
    by blast
  from t1 t2 t3 show ?thesis by blast
qed

section \<open>The options flow\<close>

lemma validate_None_iff:
  "validate c = None \<longleftrightarrow>
     0 < o_polling_interval c \<and> 0 < o_polling_timeout c \<and> 0 \<le> o_max_retries c"
  by (auto simp: validate_def)

lemma validate_reasons:
  "(validate c = Some InvalidPollingInterval \<longrightarrow> o_polling_interval c \<le> 0)
   \<and> (validate c = Some InvalidPollingTimeout \<longrightarrow> o_polling_timeout c \<le> 0)
   \<and> (validate c = Some InvalidMaxRetries \<longrightarrow> o_max_retries c < 0)"
  by (auto simp: validate_def split: if_splits)

lemma async_step_init_invalid:
  "validate (OptionalDeviceConfig_from_dict dflt ui) = Some r \<Longrightarrow>
     async_step_init dflt entry (Some ui) = (Abort (Invalid r), entry)"
  by (simp add: async_step_init_def Let_def)

text \<open>
  C4: in the options flow, when validation of the submitted settings returns a reason,
  the step aborts with that reason and the config entry is the one it was given:
  \<^verbatim>\<open>async_update_entry\<close> is not reached. Validation accepts exactly the settings with
  a positive interval, a positive timeout and a non-negative retry count, and each of the
  three reasons is returned only for a rejected value of its own field.
\<close>

theorem async_step_init_rejects:
  "(validate (OptionalDeviceConfig_from_dict dflt ui) = Some r \<longrightarrow>
      async_step_init dflt entry (Some ui) = (Abort (Invalid r), entry))
   \<and> (validate c = None \<longleftrightarrow>
        0 < o_polling_interval c \<and> 0 < o_polling_timeout c \<and> 0 \<le> o_max_retries c)
   \<and> (validate c = Some InvalidPollingInterval \<longrightarrow> o_polling_interval c \<le> 0)
   \<and> (validate c = Some InvalidPollingTimeout \<longrightarrow> o_polling_timeout c \<le> 0)
   \<and> (validate c = Some InvalidMaxRetries \<longrightarrow> o_max_retries c < 0)"
  using async_step_init_invalid [of dflt ui r entry] validate_None_iff [of c]
    validate_reasons [of c]
  by simp

theorem async_step_init_rejects_witness:
  "async_step_init example_defaults example_entry (Some [''polling_interval'' \<mapsto> PInt 0]) =
     (Abort (Invalid InvalidPollingInterval), example_entry)
   \<and> async_step_init example_defaults example_entry (Some [''polling_timeout'' \<mapsto> PInt (- 3)]) =
     (Abort (Invalid InvalidPollingTimeout), example_entry)
   \<and> async_step_init example_defaults example_entry (Some [''max_retries'' \<mapsto> PInt (- 1)]) =
     (Abort (Invalid InvalidMaxRetries), example_entry)
   \<and> validate example_defaults = None"
proof -
  have v1: "validate (OptionalDeviceConfig_from_dict example_defaults
              [''polling_interval'' \<mapsto> PInt 0]) = Some InvalidPollingInterval"
    by (simp add: validate_def OptionalDeviceConfig_from_dict_def get_int_def
          example_defaults_def)
  have v2: "validate (OptionalDeviceConfig_from_dict example_defaults
              [''polling_timeout'' \<mapsto> PInt (- 3)]) = Some InvalidPollingTimeout"
    by (simp add: validate_def OptionalDeviceConfig_from_dict_def get_int_def
          example_defaults_def)
  have v3: "validate (OptionalDeviceConfig_from_dict example_defaults
              [''max_retries'' \<mapsto> PInt (- 1)]) = Some InvalidMaxRetries"
    by (simp add: validate_def OptionalDeviceConfig_from_dict_def get_int_def
          example_defaults_def)
  have r: "0 < o_polling_interval example_defaults \<and> 0 < o_polling_timeout example_defaults
           \<and> 0 \<le> o_max_retries example_defaults"
    by (simp add: example_defaults_def)
  from v1 async_step_init_rejects [of example_defaults "[''polling_interval'' \<mapsto> PInt 0]"
      InvalidPollingInterval example_entry example_defaults]
  have t1: "async_step_init example_defaults example_entry
              (Some [''polling_interval'' \<mapsto> PInt 0]) =
            (Abort (Invalid InvalidPollingInterval), example_entry)"
    by blast
  from v2 async_step_init_rejects [of example_defaults "[''polling_timeout'' \<mapsto> PInt (- 3)]"
      InvalidPollingTimeout example_entry example_defaults]
  have t2: "async_step_init example_defaults example_entry
              (Some [''polling_timeout'' \<mapsto> PInt (- 3)]) =
            (Abort (Invalid InvalidPollingTimeout), example_entry)"
    by blast
  from v3 r async_step_init_rejects [of example_defaults "[''max_retries'' \<mapsto> PInt (- 1)]"
      InvalidMaxRetries example_entry example_defaults]
  have t3: "async_step_init example_defaults example_entry
              (Some [''max_retries'' \<mapsto> PInt (- 1)]) =
            (Abort (Invalid InvalidMaxRetries), example_entry)
            \<and> validate example_defaults = None"
    by blast
  from t1 t2 t3 show ?thesis by blast
qed

section \<open>Equality of full configurations\<close>





end
